theory Spec2Isabelle
  imports Main
begin

section \<open>Python strings\<close>

text \<open>
  Strings are lists of 8-bit characters. The helpers below are the string methods the
  three scripts call: \<^verbatim>\<open>str.endswith\<close>, \<^verbatim>\<open>str.strip\<close>, \<^verbatim>\<open>str.lower\<close>, \<^verbatim>\<open>int(str)\<close>
  and the decimal rendering of an integer inside an f-string.
\<close>

definition endswith :: "string \<Rightarrow> string \<Rightarrow> bool" where
  "endswith s suf = (length suf \<le> length s \<and> drop (length s - length suf) s = suf)"

definition is_space :: "char \<Rightarrow> bool" where
  \<comment> \<open>\<^verbatim>\<open>str.isspace\<close> on the code points below 256\<close>
  "is_space c = ((of_char c :: nat) \<in> {9, 10, 11, 12, 13, 28, 29, 30, 31, 32, 133, 160})"

definition strip :: "string \<Rightarrow> string" where
  "strip s = rev (dropWhile is_space (rev (dropWhile is_space s)))"

definition lower_char :: "char \<Rightarrow> char" where
  \<comment> \<open>\<^verbatim>\<open>str.lower\<close> on the code points below 256: A-Z and the Latin-1 capitals\<close>
  "lower_char c =
     (let n = (of_char c :: nat)
      in if (65 \<le> n \<and> n \<le> 90) \<or> (192 \<le> n \<and> n \<le> 222 \<and> n \<noteq> 215)
         then char_of (n + 32) else c)"

definition lower :: "string \<Rightarrow> string" where
  "lower s = map lower_char s"

definition is_digit :: "char \<Rightarrow> bool" where
  "is_digit c = (48 \<le> (of_char c :: nat) \<and> (of_char c :: nat) \<le> 57)"

definition digit_val :: "char \<Rightarrow> nat" where
  "digit_val c = (of_char c :: nat) - 48"

text \<open>
  The digits of a decimal literal after its first digit: digits, each optionally preceded
  by one underscore. \<open>None\<close> is the \<^verbatim>\<open>ValueError\<close> of \<^verbatim>\<open>int\<close>.
\<close>

fun int_digits :: "nat \<Rightarrow> string \<Rightarrow> nat option" where
  "int_digits acc [] = Some acc"
| "int_digits acc [c] = (if is_digit c then Some (acc * 10 + digit_val c) else None)"
| "int_digits acc (c # d # cs) =
     (if is_digit c then int_digits (acc * 10 + digit_val c) (d # cs)
      else if c = CHR ''_'' \<and> is_digit d then int_digits acc (d # cs)
      else None)"

definition int_unsigned :: "string \<Rightarrow> nat option" where
  "int_unsigned s =
     (case s of [] \<Rightarrow> None
      | c # cs \<Rightarrow> if is_digit c then int_digits (digit_val c) cs else None)"

definition max_str_digits :: nat where
  \<comment> \<open>the interpreter's default limit on the digits of a decimal literal\<close>
  "max_str_digits = 4300"

definition py_int :: "string \<Rightarrow> int option" where
  \<comment> \<open>\<^verbatim>\<open>int(s)\<close> in base 10; \<open>None\<close> when it raises \<^verbatim>\<open>ValueError\<close>\<close>
  "py_int s =
     (let t = strip s;
          neg = (t \<noteq> [] \<and> hd t = CHR ''-'');
          body = (if t \<noteq> [] \<and> (hd t = CHR ''-'' \<or> hd t = CHR ''+'') then tl t else t)
      in if max_str_digits < length (filter is_digit body) then None
         else (case int_unsigned body of
                 None \<Rightarrow> None
               | Some n \<Rightarrow> Some (if neg then - int n else int n)))"

fun str_nat :: "nat \<Rightarrow> string" where
  "str_nat n = (if n < 10 then [char_of (48 + n)]
                else str_nat (n div 10) @ [char_of (48 + n mod 10)])"

declare str_nat.simps [simp del]

definition str_int :: "int \<Rightarrow> string" where
  "str_int i = (if i < 0 then CHR ''-'' # str_nat (nat (- i)) else str_nat (nat i))"

section \<open>Exceptions\<close>

datatype exn_class =
    ImportError | ModuleNotFoundError | ValueError | OverflowError | UnicodeDecodeError
  | OSError | FileNotFoundError | ProcessLookupError | PermissionError
  | AttributeError | KeyboardInterrupt | SystemExit

text \<open>An exception raised by the environment: its class and the text of \<^verbatim>\<open>str(e)\<close>.\<close>

datatype exn = Exn (cls: exn_class) (msg: string)

definition is_Exception :: "exn \<Rightarrow> bool" where
  \<comment> \<open>what \<^verbatim>\<open>except Exception\<close> catches\<close>
  "is_Exception e = (cls e \<noteq> KeyboardInterrupt \<and> cls e \<noteq> SystemExit)"

definition is_OSError :: "exn \<Rightarrow> bool" where
  \<comment> \<open>what \<^verbatim>\<open>except OSError\<close> catches\<close>
  "is_OSError e = (cls e = OSError \<or> cls e = FileNotFoundError \<or>
                   cls e = ProcessLookupError \<or> cls e = PermissionError)"

definition is_ImportError :: "exn \<Rightarrow> bool" where
  \<comment> \<open>what \<^verbatim>\<open>except ImportError\<close> catches\<close>
  "is_ImportError e = (cls e = ImportError \<or> cls e = ModuleNotFoundError)"

section \<open>server.py: the request handler\<close>

text \<open>
  What reaches the client is a sequence of chunks: the status line, header lines, the
  blank line that ends the headers, and pieces of the body.
\<close>

datatype chunk = StatusLine int | HeaderLine string string | BlankLine | Body string

text \<open>
  The handler object: \<^verbatim>\<open>self.path\<close> (\<open>None\<close> while the attribute is not set, as
  when the base class rejects a request line before it has parsed the path),
  \<^verbatim>\<open>self.request_version\<close>, the two values the base class puts into every response
  (\<^verbatim>\<open>version_string()\<close>, \<^verbatim>\<open>date_time_string()\<close>), the buffer
  \<^verbatim>\<open>_headers_buffer\<close>, and what has been written to \<^verbatim>\<open>wfile\<close>.
\<close>

record handler =
  path :: "string option"
  request_version :: string
  version_string :: string
  date_time_string :: string
  headers_buffer :: "chunk list"
  wfile :: "chunk list"

definition request_handler :: "string option \<Rightarrow> string \<Rightarrow> string \<Rightarrow> string \<Rightarrow> handler" where
  \<comment> \<open>the handler when nothing has been queued or written for the request yet\<close>
  "request_handler p ver v d =
     \<lparr>path = p, request_version = ver, version_string = v, date_time_string = d,
      headers_buffer = [], wfile = []\<rparr>"

subsection \<open>The base class (http.server)\<close>

text \<open>
  The methods of \<^verbatim>\<open>BaseHTTPRequestHandler\<close> that the script calls or overrides, with
  their guard on the request version: to an HTTP/0.9 request no status line and no
  header is queued, and nothing is flushed. (The bookkeeping of \<^verbatim>\<open>close_connection\<close>
  in \<^verbatim>\<open>send_header\<close> and the logging in \<^verbatim>\<open>send_response\<close> are left out.)
\<close>

definition send_response_only :: "int \<Rightarrow> handler \<Rightarrow> handler" where
  "send_response_only code h =
     (if request_version h \<noteq> ''HTTP/0.9''
      then h\<lparr>headers_buffer := headers_buffer h @ [StatusLine code]\<rparr>
      else h)"

definition send_header :: "string \<Rightarrow> string \<Rightarrow> handler \<Rightarrow> handler" where
  "send_header keyword val h =
     (if request_version h \<noteq> ''HTTP/0.9''
      then h\<lparr>headers_buffer := headers_buffer h @ [HeaderLine keyword val]\<rparr>
      else h)"

definition send_response :: "int \<Rightarrow> handler \<Rightarrow> handler" where
  "send_response code h =
     send_header ''Date'' (date_time_string h)
       (send_header ''Server'' (version_string h) (send_response_only code h))"

definition flush_headers :: "handler \<Rightarrow> handler" where
  "flush_headers h = h\<lparr>wfile := wfile h @ headers_buffer h, headers_buffer := []\<rparr>"

definition base_end_headers :: "handler \<Rightarrow> handler" where
  "base_end_headers h =
     (if request_version h \<noteq> ''HTTP/0.9''
      then flush_headers (h\<lparr>headers_buffer := headers_buffer h @ [BlankLine]\<rparr>)
      else h)"

definition wfile_write :: "string \<Rightarrow> handler \<Rightarrow> handler" where
  "wfile_write bs h = h\<lparr>wfile := wfile h @ [Body bs]\<rparr>"

subsection \<open>MyHTTPRequestHandler\<close>

definition end_headers :: "handler \<Rightarrow> exn + handler" where
  "end_headers h =
     (let h1 = send_header ''Access-Control-Allow-Origin'' ''*'' h;
          h2 = send_header ''Access-Control-Allow-Methods'' ''GET, POST, OPTIONS'' h1;
          h3 = send_header ''Access-Control-Allow-Headers'' ''Content-Type'' h2
      in case path h3 of
           None \<Rightarrow>
             Inl (Exn AttributeError ''object has no attribute path'')
         | Some p \<Rightarrow>
             Inr (base_end_headers
                    (if endswith p ''.js''
                     then send_header ''Content-Type'' ''application/javascript'' h3
                     else h3)))"

definition do_OPTIONS :: "handler \<Rightarrow> exn + handler" where
  "do_OPTIONS h = end_headers (send_response 200 h)"

text \<open>
  Every other request is answered by the base class, which serves \<^verbatim>\<open>GET\<close> and
  \<^verbatim>\<open>HEAD\<close> from the file system and rejects the rest with \<^verbatim>\<open>send_error\<close>. Either
  way it sends a status, queues its own headers, calls \<^verbatim>\<open>self.end_headers()\<close> (the
  override above) and writes a body. What it sends is a parameter.
\<close>

record base_reply =
  reply_code :: int
  reply_headers :: "(string \<times> string) list"
  reply_body :: string

definition base_respond :: "base_reply \<Rightarrow> handler \<Rightarrow> exn + handler" where
  "base_respond r h =
     (case end_headers
             (fold (\<lambda>kv. send_header (fst kv) (snd kv)) (reply_headers r)
                (send_response (reply_code r) h)) of
        Inl e \<Rightarrow> Inl e
      | Inr h' \<Rightarrow> Inr (wfile_write (reply_body r) h'))"

definition handle_request :: "string \<Rightarrow> base_reply \<Rightarrow> handler \<Rightarrow> exn + handler" where
  \<comment> \<open>dispatch on the request method: \<^verbatim>\<open>do_OPTIONS\<close> is the one method the class adds\<close>
  "handle_request command r h =
     (if command = ''OPTIONS'' then do_OPTIONS h else base_respond r h)"

text \<open>What a client reads off the chunks written: the header fields and the body.\<close>

fun headers_of :: "chunk list \<Rightarrow> (string \<times> string) list" where
  "headers_of [] = []"
| "headers_of (HeaderLine k v # cs) = (k, v) # headers_of cs"
| "headers_of (c # cs) = headers_of cs"

fun body_of :: "chunk list \<Rightarrow> string" where
  "body_of [] = []"
| "body_of (Body bs # cs) = bs @ body_of cs"
| "body_of (c # cs) = body_of cs"

section \<open>server.py: ports and start-up\<close>

text \<open>
  The operating system is a parameter: \<open>bind port\<close> is the outcome of
  \<^verbatim>\<open>sock.bind(('', port))\<close>, \<open>None\<close> when the call returns and \<open>Some e\<close> when it
  raises \<open>e\<close>.
\<close>

definition check_port_available :: "(int \<Rightarrow> exn option) \<Rightarrow> int \<Rightarrow> exn + bool" where
  "check_port_available bind port =
     (case bind port of
        None \<Rightarrow> Inr True
      | Some e \<Rightarrow> if is_OSError e then Inr False else Inl e)"

definition py_range :: "int \<Rightarrow> int list" where
  "py_range n = map int [0..<nat n]"

fun find_port_loop :: "(int \<Rightarrow> exn option) \<Rightarrow> int \<Rightarrow> int list \<Rightarrow> exn + int option" where
  "find_port_loop bind start_port [] = Inr None"
| "find_port_loop bind start_port (i # rest) =
     (let port = start_port + i
      in case check_port_available bind port of
           Inl e \<Rightarrow> Inl e
         | Inr available \<Rightarrow>
             if available then Inr (Some port) else find_port_loop bind start_port rest)"

definition find_available_port :: "(int \<Rightarrow> exn option) \<Rightarrow> int \<Rightarrow> int \<Rightarrow> exn + int option" where
  "find_available_port bind start_port max_attempts =
     find_port_loop bind start_port (py_range max_attempts)"

text \<open>What \<^verbatim>\<open>subprocess.run(['lsof', '-ti', ':port'], ...)\<close> does: raise, or complete
  with some standard output.\<close>

datatype run_result = RunRaised exn | Completed string

text \<open>
  \<^verbatim>\<open>kill_existing_server\<close> returns its boolean together with the process identifiers
  that were sent SIGTERM. \<open>kill\<close> is the outcome of \<^verbatim>\<open>os.kill\<close>.
\<close>

definition kill_existing_server :: "run_result \<Rightarrow> exn option \<Rightarrow> exn + bool \<times> int list" where
  "kill_existing_server run kill =
     (case run of
        RunRaised e \<Rightarrow> if is_Exception e then Inr (False, []) else Inl e
      | Completed out \<Rightarrow>
          if strip out \<noteq> [] then
            (case py_int (strip out) of
               None \<Rightarrow> Inr (False, [])
             | Some pid \<Rightarrow>
                 (case kill of
                    None \<Rightarrow> Inr (True, [pid])
                  | Some e \<Rightarrow> if is_Exception e then Inr (False, []) else Inl e))
          else Inr (False, []))"

definition PORT :: int where
  "PORT = 8080"

text \<open>
  What the environment answers while the script starts: the bind probe, the line the
  operator types at the prompt, the port lookup and the signal delivery of choice 1, and
  the bind of the listening socket (with address reuse, so not the probe).
\<close>

record startup_env =
  probe :: "int \<Rightarrow> exn option"
  choice_input :: string
  lsof_run :: run_result
  kill_outcome :: "exn option"
  server_bind :: "int \<Rightarrow> exn option"

text \<open>How the script ends: \<^verbatim>\<open>sys.exit(code)\<close>, or it served on a port until interrupted.\<close>

datatype outcome = Exited int | Served int

definition serve :: "startup_env \<Rightarrow> int \<Rightarrow> int list \<Rightarrow> exn + outcome \<times> int list" where
  \<comment> \<open>the final \<^verbatim>\<open>try\<close> block\<close>
  "serve env port sigs =
     (case server_bind env port of
        None \<Rightarrow> Inr (Served port, sigs)
      | Some e \<Rightarrow> if is_Exception e then Inr (Exited 1, sigs) else Inl e)"

definition scan_and_serve :: "startup_env \<Rightarrow> int list \<Rightarrow> exn + outcome \<times> int list" where
  \<comment> \<open>the branch \<^verbatim>\<open>if choice == "2"\<close>\<close>
  "scan_and_serve env sigs =
     (case find_available_port (probe env) (PORT + 1) 10 of
        Inl e \<Rightarrow> Inl e
      | Inr new_port \<Rightarrow>
          if new_port \<noteq> None \<and> new_port \<noteq> Some 0 then serve env (the new_port) sigs
          else Inr (Exited 1, sigs))"

definition after_choice :: "startup_env \<Rightarrow> string \<Rightarrow> int list \<Rightarrow> exn + outcome \<times> int list" where
  \<comment> \<open>the second \<^verbatim>\<open>if\<close>/\<^verbatim>\<open>elif\<close> on \<^verbatim>\<open>choice\<close>, then the server\<close>
  "after_choice env choice sigs =
     (if choice = ''2'' then scan_and_serve env sigs
      else if choice = ''3'' then Inr (Exited 0, sigs)
      else serve env PORT sigs)"

definition server_main :: "startup_env \<Rightarrow> exn + outcome \<times> int list" where
  "server_main env =
     (case check_port_available (probe env) PORT of
        Inl e \<Rightarrow> Inl e
      | Inr available \<Rightarrow>
          if \<not> available then
            (let choice = strip (choice_input env)
             in if choice = ''1'' then
                  (case kill_existing_server (lsof_run env) (kill_outcome env) of
                     Inl e \<Rightarrow> Inl e
                   | Inr (killed, sigs) \<Rightarrow>
                       if killed then after_choice env choice sigs
                       else after_choice env ''2'' sigs)
                else after_choice env choice [])
          else serve env PORT [])"

section \<open>manage_server.py\<close>

definition SERVER_SCRIPT :: string where
  "SERVER_SCRIPT = ''server.py''"

definition cross_mark :: string where
  \<comment> \<open>U+274C in UTF-8\<close>
  "cross_mark = [CHR 0xE2, CHR 0x9D, CHR 0x8C]"

definition check_mark :: string where
  \<comment> \<open>U+2705 in UTF-8\<close>
  "check_mark = [CHR 0xE2, CHR 0x9C, CHR 0x85]"

definition get_server_pid :: "run_result \<Rightarrow> exn + int option" where
  "get_server_pid run =
     (case run of
        RunRaised e \<Rightarrow> if is_Exception e then Inr None else Inl e
      | Completed out \<Rightarrow>
          if strip out \<noteq> [] then
            (case py_int (strip out) of
               None \<Rightarrow> Inr None
             | Some pid \<Rightarrow> Inr (Some pid))
          else Inr None)"

text \<open>
  The system as the manager sees and changes it: what the port lookup answers now, the
  children launched, the processes sent SIGTERM, and the lines printed.
\<close>

record world =
  lsof :: run_result
  launched :: "string list list"
  sigterms :: "int list"
  printed :: "string list"

text \<open>
  What the environment answers to the calls that change the system: launching the child
  and waiting, delivering the signal and waiting.
\<close>

record manager_env =
  executable :: string
  popen_outcome :: "exn option"
  lsof_after_launch :: run_result
  kill_result :: "exn option"
  lsof_after_kill :: run_result

definition print :: "string \<Rightarrow> world \<Rightarrow> world" where
  "print line w = w\<lparr>printed := printed w @ [line]\<rparr>"

definition is_server_running :: "world \<Rightarrow> exn + bool" where
  "is_server_running w =
     (case get_server_pid (lsof w) of Inl e \<Rightarrow> Inl e | Inr pid \<Rightarrow> Inr (pid \<noteq> None))"

definition start_server :: "manager_env \<Rightarrow> world \<Rightarrow> (exn + bool) \<times> world" where
  "start_server env w =
     (case is_server_running w of
        Inl e \<Rightarrow> (Inl e, w)
      | Inr running \<Rightarrow>
          if running then
            (Inr False,
             print ''Use './manage_server.py restart' to restart it''
               (print (cross_mark @ '' Server is already running on port '' @ str_int PORT) w))
          else
            (let w1 = print (''Starting server on port '' @ str_int PORT @ ''...'') w
             in case popen_outcome env of
                  Some e \<Rightarrow> (Inl e, w1)
                | None \<Rightarrow>
                    (let w2 = w1\<lparr>launched := launched w1 @ [[executable env, SERVER_SCRIPT]],
                                 lsof := lsof_after_launch env\<rparr>
                     in case is_server_running w2 of
                          Inl e \<Rightarrow> (Inl e, w2)
                        | Inr started \<Rightarrow>
                            if started then
                              (Inr True,
                               print (check_mark @ '' Server started successfully at http://localhost:''
                                        @ str_int PORT @ ''/'') w2)
                            else (Inr False, print (cross_mark @ '' Failed to start server'') w2))))"

definition stop_server :: "manager_env \<Rightarrow> world \<Rightarrow> (exn + bool) \<times> world" where
  "stop_server env w =
     (case get_server_pid (lsof w) of
        Inl e \<Rightarrow> (Inl e, w)
      | Inr pid \<Rightarrow>
          if pid = None \<or> pid = Some 0 then
            (Inr False, print (cross_mark @ '' No server is running'') w)
          else
            (case kill_result env of
               None \<Rightarrow>
                 (Inr True,
                  print (check_mark @ '' Server stopped (PID: '' @ str_int (the pid) @ '')'')
                    (w\<lparr>sigterms := sigterms w @ [the pid], lsof := lsof_after_kill env\<rparr>))
             | Some e \<Rightarrow>
                 if is_Exception e
                 then (Inr False, print (cross_mark @ '' Failed to stop server: '' @ msg e) w)
                 else (Inl e, w)))"

definition restart_server :: "manager_env \<Rightarrow> world \<Rightarrow> (exn + unit) \<times> world" where
  "restart_server env w =
     (let w1 = print ''Restarting server...'' w
      in case is_server_running w1 of
           Inl e \<Rightarrow> (Inl e, w1)
         | Inr running \<Rightarrow>
             (let (r, w2) = (if running then stop_server env w1 else (Inr False, w1))
              in case r of
                   Inl e \<Rightarrow> (Inl e, w2)
                 | Inr _ \<Rightarrow>
                     (case start_server env w2 of
                        (Inl e, w3) \<Rightarrow> (Inl e, w3)
                      | (Inr _, w3) \<Rightarrow> (Inr (), w3))))"

definition status_server :: "world \<Rightarrow> (exn + unit) \<times> world" where
  "status_server w =
     (case get_server_pid (lsof w) of
        Inl e \<Rightarrow> (Inl e, w)
      | Inr pid \<Rightarrow>
          if pid \<noteq> None \<and> pid \<noteq> Some 0 then
            (Inr (),
             print (''   URL: http://localhost:'' @ str_int PORT @ ''/'')
               (print (check_mark @ '' Server is running (PID: '' @ str_int (the pid) @ '')'') w))
          else (Inr (), print (cross_mark @ '' Server is not running'') w))"

definition finish :: "(exn + 'a) \<times> world \<Rightarrow> (exn + int) \<times> world" where
  \<comment> \<open>an action's value is dropped; a script that runs to its end exits with status 0\<close>
  "finish rw = (case fst rw of Inl e \<Rightarrow> (Inl e, snd rw) | Inr _ \<Rightarrow> (Inr 0, snd rw))"

text \<open>\<^verbatim>\<open>main\<close> on \<^verbatim>\<open>sys.argv\<close>: the exit status, or the exception that ends the script.\<close>

definition main :: "manager_env \<Rightarrow> string list \<Rightarrow> world \<Rightarrow> (exn + int) \<times> world" where
  "main env argv w =
     (if length argv < 2 then
        (Inr 1, print ''Usage: ./manage_server.py [start|stop|restart|status]'' w)
      else
        (let command = lower (argv ! 1)
         in if command = ''start'' then finish (start_server env w)
            else if command = ''stop'' then finish (stop_server env w)
            else if command = ''restart'' then finish (restart_server env w)
            else if command = ''status'' then finish (status_server w)
            else
              (Inr 1,
               print ''Available commands: start, stop, restart, status''
                 (print (''Unknown command: '' @ command) w))))"

section \<open>create_favicon.py\<close>

text \<open>
  The environment of the script: whether \<^verbatim>\<open>from PIL import Image, ImageDraw, ImageFont\<close>
  raises, and what \<^verbatim>\<open>create_favicon()\<close> does when it is called (it raises, or writes
  files and prints lines). Files are a map from names to contents.
\<close>

record favicon_env =
  pil_import :: "exn option"
  rendering :: "exn + (string \<rightharpoonup> string) \<times> string list"

record script_state =
  files :: "string \<rightharpoonup> string"
  console :: "string list"

definition placeholder_header :: string where
  "placeholder_header =
     [CHR 0x00, CHR 0x00, CHR 0x01, CHR 0x00, CHR 0x01, CHR 0x00, CHR 0x10, CHR 0x10,
      CHR 0x00, CHR 0x00, CHR 0x01, CHR 0x00, CHR 0x01, CHR 0x00]"

definition write_placeholder :: "script_state \<Rightarrow> script_state" where
  \<comment> \<open>the body of \<^verbatim>\<open>except ImportError\<close>\<close>
  "write_placeholder st =
     \<lparr>files = (files st)(''favicon.ico'' \<mapsto> placeholder_header @ replicate 1000 (CHR 0x00)),
      console = console st @
        [''Pillow library not installed. Creating a simple text file as placeholder.'',
         ''Created placeholder favicon.ico'',
         ''To create a proper favicon, install Pillow: pip install Pillow'']\<rparr>"

definition main_block :: "favicon_env \<Rightarrow> script_state \<Rightarrow> exn option \<times> script_state" where
  \<comment> \<open>the \<^verbatim>\<open>try\<close> statement under \<^verbatim>\<open>if __name__ == "__main__"\<close>\<close>
  "main_block env st =
     (let attempt =
        (case pil_import env of
           Some e \<Rightarrow> Inl e
         | None \<Rightarrow> rendering env)
      in case attempt of
           Inl e \<Rightarrow> if is_ImportError e then (None, write_placeholder st) else (Some e, st)
         | Inr (written, lines) \<Rightarrow>
             (None, \<lparr>files = files st ++ written, console = console st @ lines\<rparr>))"

definition create_favicon_script :: "favicon_env \<Rightarrow> script_state \<Rightarrow> exn option \<times> script_state" where
  \<comment> \<open>the module from its first statement: the import on line 6, then the main block;
      the result is the uncaught exception, if any, and the files and console\<close>
  "create_favicon_script env st =
     (case pil_import env of
        Some e \<Rightarrow> (Some e, st)
      | None \<Rightarrow> main_block env st)"

section \<open>The spec's reading of process discovery\<close>

text \<open>
  The spec says that discovery parses the first returned identifier. This definition
  states that reading, to compare \<^verbatim>\<open>get_server_pid\<close> with: the first
  whitespace-separated field of the output, as an integer.
\<close>

definition spec_first_identifier :: "string \<Rightarrow> int option" where
  "spec_first_identifier out =
     py_int (takeWhile (\<lambda>c. \<not> is_space c) (dropWhile is_space out))"

section \<open>Properties of the request handler\<close>

lemma endswith_last:
  assumes "endswith s suf" and "suf \<noteq> []"
  shows "last s = last suf"
proof -
  from assms(1) have "s = take (length s - length suf) s @ suf"
    by (metis append_take_drop_id endswith_def)
  then show ?thesis
    using assms(2) by (metis last_appendR)
qed

lemma html_not_js: "endswith p ''.html'' \<Longrightarrow> \<not> endswith p ''.js''"
  using endswith_last [of p "''.html''"] endswith_last [of p "''.js''"] by auto

lemma fold_send_header:
  "fold (\<lambda>kv. send_header (fst kv) (snd kv)) kvs h =
     (if request_version h \<noteq> ''HTTP/0.9''
      then h\<lparr>headers_buffer := headers_buffer h @ map (\<lambda>kv. HeaderLine (fst kv) (snd kv)) kvs\<rparr>
      else h)"
  by (induction kvs arbitrary: h) (simp_all add: send_header_def)

lemma send_header_http1:
  "request_version h \<noteq> ''HTTP/0.9'' \<Longrightarrow>
   send_header keyword val h = h\<lparr>headers_buffer := headers_buffer h @ [HeaderLine keyword val]\<rparr>"
  by (simp add: send_header_def)

lemma send_header_http09:
  "request_version h = ''HTTP/0.9'' \<Longrightarrow> send_header keyword val h = h"
  by (simp add: send_header_def)

lemma send_response_only_http1:
  "request_version h \<noteq> ''HTTP/0.9'' \<Longrightarrow>
   send_response_only code h = h\<lparr>headers_buffer := headers_buffer h @ [StatusLine code]\<rparr>"
  by (simp add: send_response_only_def)

lemma send_response_only_http09:
  "request_version h = ''HTTP/0.9'' \<Longrightarrow> send_response_only code h = h"
  by (simp add: send_response_only_def)

lemma base_end_headers_http1:
  "request_version h \<noteq> ''HTTP/0.9'' \<Longrightarrow>
   base_end_headers h = h\<lparr>wfile := wfile h @ headers_buffer h @ [BlankLine], headers_buffer := []\<rparr>"
  by (simp add: base_end_headers_def flush_headers_def)

lemma base_end_headers_http09:
  "request_version h = ''HTTP/0.9'' \<Longrightarrow> base_end_headers h = h"
  by (simp add: base_end_headers_def)

lemma fold_send_header_http1:
  "request_version h \<noteq> ''HTTP/0.9'' \<Longrightarrow>
   fold (\<lambda>kv. send_header (fst kv) (snd kv)) kvs h =
     h\<lparr>headers_buffer := headers_buffer h @ map (\<lambda>kv. HeaderLine (fst kv) (snd kv)) kvs\<rparr>"
  by (simp add: fold_send_header)

lemma fold_send_header_http09:
  "request_version h = ''HTTP/0.9'' \<Longrightarrow>
   fold (\<lambda>kv. send_header (fst kv) (snd kv)) kvs h = h"
  by (simp add: fold_send_header)

lemmas http1_simps =
  send_header_http1 send_response_only_http1 base_end_headers_http1 fold_send_header_http1

lemmas http09_simps =
  send_header_http09 send_response_only_http09 base_end_headers_http09 fold_send_header_http09

lemmas request_defs =
  handle_request_def do_OPTIONS_def base_respond_def end_headers_def Let_def
  send_response_def wfile_write_def request_handler_def

text \<open>What is written for a parsed request of a version other than HTTP/0.9.\<close>

lemma handle_request_http1:
  assumes "ver \<noteq> ''HTTP/0.9''"
  shows "handle_request command r (request_handler (Some p) ver v d) =
     Inr \<lparr>path = Some p, request_version = ver, version_string = v, date_time_string = d,
          headers_buffer = [],
          wfile =
            [StatusLine (if command = ''OPTIONS'' then 200 else reply_code r),
             HeaderLine ''Server'' v, HeaderLine ''Date'' d]
            @ (if command = ''OPTIONS'' then []
               else map (\<lambda>kv. HeaderLine (fst kv) (snd kv)) (reply_headers r))
            @ [HeaderLine ''Access-Control-Allow-Origin'' ''*'',
               HeaderLine ''Access-Control-Allow-Methods'' ''GET, POST, OPTIONS'',
               HeaderLine ''Access-Control-Allow-Headers'' ''Content-Type'']
            @ (if endswith p ''.js''
               then [HeaderLine ''Content-Type'' ''application/javascript''] else [])
            @ [BlankLine]
            @ (if command = ''OPTIONS'' then [] else [Body (reply_body r)])\<rparr>"
proof (cases "endswith p ''.js''")
  case True
  with assms show ?thesis by (cases "command = ''OPTIONS''") (simp_all add: request_defs http1_simps)
next
  case False
  with assms show ?thesis by (cases "command = ''OPTIONS''") (simp_all add: request_defs http1_simps)
qed

text \<open>What is written for a parsed request of version HTTP/0.9: the body, if any.\<close>

lemma handle_request_http09:
  "handle_request command r (request_handler (Some p) ''HTTP/0.9'' v d) =
     Inr \<lparr>path = Some p, request_version = ''HTTP/0.9'', version_string = v,
          date_time_string = d, headers_buffer = [],
          wfile = (if command = ''OPTIONS'' then [] else [Body (reply_body r)])\<rparr>"
  by (cases "endswith p ''.js''"; cases "command = ''OPTIONS''")
    (simp_all add: request_defs http09_simps)

text \<open>
  When the base class answers before \<^verbatim>\<open>self.path\<close> is set (a request line it
  rejects while parsing), the override fails on \<^verbatim>\<open>self.path.endswith\<close> and nothing is
  written.
\<close>

lemma handle_request_without_path:
  "handle_request command r (request_handler None ver v d) =
     Inl (Exn AttributeError ''object has no attribute path'')"
proof -
  have "path (send_header k x h) = path h" for k x h
    by (simp add: send_header_def)
  moreover have "path (send_response_only c h) = path h" for c h
    by (simp add: send_response_only_def)
  moreover have "path (fold (\<lambda>kv. send_header (fst kv) (snd kv)) kvs h) = path h" for kvs h
    by (simp add: fold_send_header)
  ultimately show ?thesis
    by (simp add: request_defs)
qed

lemma headers_of_append: "headers_of (xs @ ys) = headers_of xs @ headers_of ys"
  by (induction xs rule: headers_of.induct) simp_all

lemma headers_of_map:
  "headers_of (map (\<lambda>kv. HeaderLine (fst kv) (snd kv)) kvs) = kvs"
  by (induction kvs) simp_all

lemma body_of_append: "body_of (xs @ ys) = body_of xs @ body_of ys"
  by (induction xs rule: body_of.induct) simp_all

lemma body_of_map:
  "body_of (map (\<lambda>kv. HeaderLine (fst kv) (snd kv)) kvs) = []"
  by (induction kvs) simp_all

text \<open>
  C1, as stated, fails: to a request of version HTTP/0.9 the base class queues no
  header at all, so the response to such a request for \<^verbatim>\<open>/app.js\<close> is the body alone,
  without any CORS header.
\<close>

theorem C1_http09_no_headers_counterexample:
  "handle_request ''GET''
     \<lparr>reply_code = 200, reply_headers = [(''Content-type'', ''text/javascript'')],
      reply_body = ''export {};''\<rparr>
     (request_handler (Some ''/app.js'') ''HTTP/0.9'' ''SimpleHTTP/0.6'' ''now'')
   = Inr \<lparr>path = Some ''/app.js'', request_version = ''HTTP/0.9'',
          version_string = ''SimpleHTTP/0.6'', date_time_string = ''now'',
          headers_buffer = [], wfile = [Body ''export {};'']\<rparr>"
  unfolding handle_request_http09 by simp

text \<open>
  C1, amended. For every parsed request of a version other than HTTP/0.9, whatever its
  method and path, the header fields written to the client are the base class's own,
  then the three CORS headers with their fixed values, each once and in this order, then
  at most the content-type override; every header queued has been written. For a
  request of version HTTP/0.9 no header field is written.
\<close>

theorem C1_cors_headers_on_every_response:
  "(ver \<noteq> ''HTTP/0.9'' \<longrightarrow>
      \<not> isl (handle_request command r (request_handler (Some p) ver v d))
      \<and> headers_of (wfile (projr (handle_request command r (request_handler (Some p) ver v d)))) =
          [(''Server'', v), (''Date'', d)]
            @ (if command = ''OPTIONS'' then [] else reply_headers r)
            @ [(''Access-Control-Allow-Origin'', ''*''),
               (''Access-Control-Allow-Methods'', ''GET, POST, OPTIONS''),
               (''Access-Control-Allow-Headers'', ''Content-Type'')]
            @ (if endswith p ''.js'' then [(''Content-Type'', ''application/javascript'')] else [])
      \<and> headers_buffer (projr (handle_request command r (request_handler (Some p) ver v d))) = [])
   \<and> \<not> isl (handle_request command r (request_handler (Some p) ''HTTP/0.9'' v d))
   \<and> headers_of (wfile (projr (handle_request command r
        (request_handler (Some p) ''HTTP/0.9'' v d)))) = []"
proof (intro conjI impI)
  assume ver: "ver \<noteq> ''HTTP/0.9''"
  show "\<not> isl (handle_request command r (request_handler (Some p) ver v d))"
    unfolding handle_request_http1 [OF ver] by simp
  show "headers_of (wfile (projr (handle_request command r (request_handler (Some p) ver v d)))) =
          [(''Server'', v), (''Date'', d)]
            @ (if command = ''OPTIONS'' then [] else reply_headers r)
            @ [(''Access-Control-Allow-Origin'', ''*''),
               (''Access-Control-Allow-Methods'', ''GET, POST, OPTIONS''),
               (''Access-Control-Allow-Headers'', ''Content-Type'')]
            @ (if endswith p ''.js'' then [(''Content-Type'', ''application/javascript'')] else [])"
    unfolding handle_request_http1 [OF ver] by (simp add: headers_of_append headers_of_map)
  show "headers_buffer (projr (handle_request command r (request_handler (Some p) ver v d))) = []"
    unfolding handle_request_http1 [OF ver] by simp
next
  show "\<not> isl (handle_request command r (request_handler (Some p) ''HTTP/0.9'' v d))"
    unfolding handle_request_http09 by simp
  show "headers_of (wfile (projr (handle_request command r
        (request_handler (Some p) ''HTTP/0.9'' v d)))) = []"
    unfolding handle_request_http09 by simp
qed

theorem C1_cors_headers_on_every_response_witness:
  "''HTTP/1.1'' \<noteq> ''HTTP/0.9''
   \<and> headers_of (wfile (projr (handle_request ''POST''
        \<lparr>reply_code = 501, reply_headers = [(''Connection'', ''close'')], reply_body = []\<rparr>
        (request_handler (Some ''/api'') ''HTTP/1.1'' ''SimpleHTTP/0.6'' ''now'')))) =
       [(''Server'', ''SimpleHTTP/0.6''), (''Date'', ''now''), (''Connection'', ''close''),
        (''Access-Control-Allow-Origin'', ''*''),
        (''Access-Control-Allow-Methods'', ''GET, POST, OPTIONS''),
        (''Access-Control-Allow-Headers'', ''Content-Type'')]"
proof -
  have ver: "''HTTP/1.1'' \<noteq> ''HTTP/0.9''" by simp
  have js: "\<not> endswith ''/api'' ''.js''" by (simp add: endswith_def)
  show ?thesis
    using ver js
      C1_cors_headers_on_every_response [of "''HTTP/1.1''" "''POST''"
        "\<lparr>reply_code = 501, reply_headers = [(''Connection'', ''close'')], reply_body = []\<rparr>"
        "''/api''" "''SimpleHTTP/0.6''" "''now''"]
    by simp
qed




text \<open>
  C3, as stated, fails for a request of version HTTP/0.9: the path of
  \<^verbatim>\<open>GET /app.js\<close> ends in \<^verbatim>\<open>.js\<close>, and no header field is written at all, so no
  content type either.
\<close>

theorem C3_http09_no_content_type_counterexample:
  "endswith ''/app.js'' ''.js''
   \<and> (''Content-Type'', ''application/javascript'')
       \<notin> set (headers_of (wfile (projr (handle_request ''GET''
            \<lparr>reply_code = 200, reply_headers = [(''Content-type'', ''text/javascript'')],
             reply_body = ''export {};''\<rparr>
            (request_handler (Some ''/app.js'') ''HTTP/0.9'' ''SimpleHTTP/0.6'' ''now'')))))"
  unfolding handle_request_http09 by (simp add: endswith_def)

text \<open>
  C3, amended. For a parsed request of a version other than HTTP/0.9 whose path ends in
  \<^verbatim>\<open>.js\<close>, the header \<^verbatim>\<open>Content-Type: application/javascript\<close> is written. For a
  parsed request whose path ends in \<^verbatim>\<open>.html\<close> the handler adds nothing but the three
  CORS headers to what the base class sends (and nothing at all under HTTP/0.9).
\<close>

theorem C3_content_type_override:
  "(ver \<noteq> ''HTTP/0.9'' \<and> endswith p ''.js'' \<longrightarrow>
      \<not> isl (handle_request command r (request_handler (Some p) ver v d))
      \<and> HeaderLine ''Content-Type'' ''application/javascript''
          \<in> set (wfile (projr (handle_request command r (request_handler (Some p) ver v d)))))
   \<and> (endswith p ''.html'' \<longrightarrow>
      \<not> isl (handle_request command r (request_handler (Some p) ver v d))
      \<and> headers_of (wfile (projr (handle_request command r (request_handler (Some p) ver v d)))) =
          (if ver = ''HTTP/0.9'' then []
           else [(''Server'', v), (''Date'', d)]
             @ (if command = ''OPTIONS'' then [] else reply_headers r)
             @ [(''Access-Control-Allow-Origin'', ''*''),
                (''Access-Control-Allow-Methods'', ''GET, POST, OPTIONS''),
                (''Access-Control-Allow-Headers'', ''Content-Type'')]))"
proof (intro conjI impI)
  assume a: "ver \<noteq> ''HTTP/0.9'' \<and> endswith p ''.js''"
  then have ver: "ver \<noteq> ''HTTP/0.9''" and js: "endswith p ''.js''" by simp_all
  show "\<not> isl (handle_request command r (request_handler (Some p) ver v d))"
    unfolding handle_request_http1 [OF ver] by simp
  show "HeaderLine ''Content-Type'' ''application/javascript''
          \<in> set (wfile (projr (handle_request command r (request_handler (Some p) ver v d))))"
    unfolding handle_request_http1 [OF ver] using js by simp
next
  assume html: "endswith p ''.html''"
  then have njs: "\<not> endswith p ''.js''" by (rule html_not_js)
  show "\<not> isl (handle_request command r (request_handler (Some p) ver v d))"
  proof (cases "ver = ''HTTP/0.9''")
    case True
    show ?thesis unfolding True handle_request_http09 by simp
  next
    case False
    show ?thesis unfolding handle_request_http1 [OF False] by simp
  qed
  show "headers_of (wfile (projr (handle_request command r (request_handler (Some p) ver v d)))) =
          (if ver = ''HTTP/0.9'' then []
           else [(''Server'', v), (''Date'', d)]
             @ (if command = ''OPTIONS'' then [] else reply_headers r)
             @ [(''Access-Control-Allow-Origin'', ''*''),
                (''Access-Control-Allow-Methods'', ''GET, POST, OPTIONS''),
                (''Access-Control-Allow-Headers'', ''Content-Type'')])"
  proof (cases "ver = ''HTTP/0.9''")
    case True
    show ?thesis unfolding True handle_request_http09 by simp
  next
    case False
    show ?thesis
      unfolding handle_request_http1 [OF False]
      using njs False by (simp add: headers_of_append headers_of_map)
  qed
qed

theorem C3_content_type_override_witness:
  "(''HTTP/1.0'' \<noteq> ''HTTP/0.9'' \<and> endswith ''/js/app.js'' ''.js'')
   \<and> HeaderLine ''Content-Type'' ''application/javascript''
        \<in> set (wfile (projr (handle_request ''GET''
             \<lparr>reply_code = 200, reply_headers = [(''Content-type'', ''text/javascript'')],
              reply_body = ''export {};''\<rparr>
             (request_handler (Some ''/js/app.js'') ''HTTP/1.0'' ''SimpleHTTP/0.6'' ''now''))))
   \<and> endswith ''/index.html'' ''.html''
   \<and> headers_of (wfile (projr (handle_request ''GET''
           \<lparr>reply_code = 200, reply_headers = [(''Content-type'', ''text/html'')],
            reply_body = ''<html></html>''\<rparr>
           (request_handler (Some ''/index.html'') ''HTTP/1.0'' ''SimpleHTTP/0.6'' ''now'')))) =
       [(''Server'', ''SimpleHTTP/0.6''), (''Date'', ''now''),
        (''Content-type'', ''text/html''),
        (''Access-Control-Allow-Origin'', ''*''),
        (''Access-Control-Allow-Methods'', ''GET, POST, OPTIONS''),
        (''Access-Control-Allow-Headers'', ''Content-Type'')]"
proof -
  have js: "''HTTP/1.0'' \<noteq> ''HTTP/0.9'' \<and> endswith ''/js/app.js'' ''.js''"
    and html: "endswith ''/index.html'' ''.html''"
    by (simp_all add: endswith_def)
  show ?thesis
    using js html
      C3_content_type_override [of "''HTTP/1.0''" "''/js/app.js''" "''GET''"
        "\<lparr>reply_code = 200, reply_headers = [(''Content-type'', ''text/javascript'')],
          reply_body = ''export {};''\<rparr>" "''SimpleHTTP/0.6''" "''now''"]
      C3_content_type_override [of "''HTTP/1.0''" "''/index.html''" "''GET''"
        "\<lparr>reply_code = 200, reply_headers = [(''Content-type'', ''text/html'')],
          reply_body = ''<html></html>''\<rparr>" "''SimpleHTTP/0.6''" "''now''"]
    by simp
qed

section \<open>Properties of the port scan\<close>

lemma find_port_loop_none:
  "(\<forall>i\<in>set xs. check_port_available bind (s + i) = Inr False) \<Longrightarrow>
   find_port_loop bind s xs = Inr None"
  by (induction xs) simp_all

lemma find_port_loop_None:
  "find_port_loop bind s xs = Inr None \<Longrightarrow>
   \<forall>i\<in>set xs. check_port_available bind (s + i) = Inr False"
  by (induction xs) (auto simp: Let_def split: sum.splits if_splits)

lemma find_port_loop_first:
  "n < length xs \<Longrightarrow> check_port_available bind (s + xs ! n) = Inr True \<Longrightarrow>
   (\<forall>m<n. check_port_available bind (s + xs ! m) = Inr False) \<Longrightarrow>
   find_port_loop bind s xs = Inr (Some (s + xs ! n))"
proof (induction xs arbitrary: n)
  case Nil
  then show ?case by simp
next
  case (Cons x xs)
  show ?case
  proof (cases n)
    case 0
    with Cons.prems show ?thesis by simp
  next
    case (Suc k)
    from Cons.prems(3) Suc have hd: "check_port_available bind (s + x) = Inr False"
      by (metis nth_Cons_0 zero_less_Suc)
    have rest: "\<forall>m<k. check_port_available bind (s + xs ! m) = Inr False"
      using Cons.prems(3) Suc by (metis Suc_less_eq nth_Cons_Suc)
    have "find_port_loop bind s xs = Inr (Some (s + xs ! k))"
      using Cons.IH [of k] Cons.prems(1,2) Suc rest by simp
    with hd Suc show ?thesis by simp
  qed
qed

lemma find_port_loop_Some:
  "find_port_loop bind s xs = Inr (Some q) \<Longrightarrow>
   \<exists>n<length xs. q = s + xs ! n \<and> check_port_available bind q = Inr True \<and>
     (\<forall>m<n. check_port_available bind (s + xs ! m) = Inr False)"
proof (induction xs)
  case Nil
  then show ?case by simp
next
  case (Cons x xs)
  show ?case
  proof (cases "check_port_available bind (s + x)")
    case (Inl e)
    with Cons.prems show ?thesis by simp
  next
    case (Inr b)
    show ?thesis
    proof (cases b)
      case True
      with Inr Cons.prems have "q = s + x" by simp
      with Inr True show ?thesis by (intro exI [of _ 0]) simp
    next
      case False
      with Inr Cons.prems have "find_port_loop bind s xs = Inr (Some q)" by simp
      from Cons.IH [OF this] obtain n where n: "n < length xs" "q = s + xs ! n"
        "check_port_available bind q = Inr True"
        "\<forall>m<n. check_port_available bind (s + xs ! m) = Inr False" by blast
      have "\<forall>m<Suc n. check_port_available bind (s + (x # xs) ! m) = Inr False"
      proof (intro allI impI)
        fix m assume "m < Suc n"
        then show "check_port_available bind (s + (x # xs) ! m) = Inr False"
          using n(4) Inr False by (cases m) simp_all
      qed
      with n(1-3) show ?thesis by (intro exI [of _ "Suc n"]) simp
    qed
  qed
qed

lemma py_range_nth: "m < nat n \<Longrightarrow> py_range n ! m = int m"
  by (simp add: py_range_def)

lemma length_py_range: "length (py_range n) = nat n"
  by (simp add: py_range_def)

lemma py_range_mem: "i \<in> set (py_range n) \<longleftrightarrow> 0 \<le> i \<and> i < n"
proof
  assume "i \<in> set (py_range n)"
  then show "0 \<le> i \<and> i < n" by (auto simp: py_range_def)
next
  assume a: "0 \<le> i \<and> i < n"
  then have "nat i \<in> set [0..<nat n]" and "i = int (nat i)" by simp_all
  then show "i \<in> set (py_range n)" unfolding py_range_def set_map by (rule_tac image_eqI)
qed

lemma find_available_port_Some_iff:
  "find_available_port bind P n = Inr (Some q) \<longleftrightarrow>
     P \<le> q \<and> q < P + n \<and> check_port_available bind q = Inr True \<and>
     (\<forall>r. P \<le> r \<and> r < q \<longrightarrow> check_port_available bind r = Inr False)"
proof
  assume "find_available_port bind P n = Inr (Some q)"
  then obtain k where k: "k < nat n" "q = P + py_range n ! k"
    "check_port_available bind q = Inr True"
    "\<forall>m<k. check_port_available bind (P + py_range n ! m) = Inr False"
    unfolding find_available_port_def using find_port_loop_Some [of bind P "py_range n" q]
    by (auto simp: length_py_range)
  from k(1,2) have q: "q = P + int k" by (simp add: py_range_nth)
  have "check_port_available bind r = Inr False" if r: "P \<le> r \<and> r < q" for r
  proof -
    define j where "j = nat (r - P)"
    from r q have j: "j < k" "r = P + int j" unfolding j_def by arith+
    from j(1) k(1) have "py_range n ! j = int j" by (intro py_range_nth) simp
    moreover from k(4) j(1) have "check_port_available bind (P + py_range n ! j) = Inr False"
      by blast
    ultimately show ?thesis using j(2) by simp
  qed
  with q k(1,3) show "P \<le> q \<and> q < P + n \<and> check_port_available bind q = Inr True \<and>
     (\<forall>r. P \<le> r \<and> r < q \<longrightarrow> check_port_available bind r = Inr False)" by auto
next
  assume h: "P \<le> q \<and> q < P + n \<and> check_port_available bind q = Inr True \<and>
     (\<forall>r. P \<le> r \<and> r < q \<longrightarrow> check_port_available bind r = Inr False)"
  define k where "k = nat (q - P)"
  from h have k: "k < nat n" "q = P + int k" by (simp_all add: k_def)
  then have nth: "py_range n ! k = int k" by (simp add: py_range_nth)
  have before: "\<forall>m<k. check_port_available bind (P + py_range n ! m) = Inr False"
  proof (intro allI impI)
    fix m assume "m < k"
    with k have "py_range n ! m = int m" "P \<le> P + int m \<and> P + int m < q"
      by (simp_all add: py_range_nth)
    with h show "check_port_available bind (P + py_range n ! m) = Inr False" by simp
  qed
  have "find_port_loop bind P (py_range n) = Inr (Some (P + py_range n ! k))"
    using find_port_loop_first [of k "py_range n" bind P] k(1) h before nth k(2)
    by (simp add: length_py_range)
  then show "find_available_port bind P n = Inr (Some q)"
    by (simp add: find_available_port_def nth k(2))
qed

lemma find_available_port_None_iff:
  "find_available_port bind P n = Inr None \<longleftrightarrow>
     (\<forall>r. P \<le> r \<and> r < P + n \<longrightarrow> check_port_available bind r = Inr False)"
proof
  assume "find_available_port bind P n = Inr None"
  then have a: "\<forall>i\<in>set (py_range n). check_port_available bind (P + i) = Inr False"
    unfolding find_available_port_def by (rule find_port_loop_None)
  show "\<forall>r. P \<le> r \<and> r < P + n \<longrightarrow> check_port_available bind r = Inr False"
  proof (intro allI impI)
    fix r assume "P \<le> r \<and> r < P + n"
    then have "r - P \<in> set (py_range n)" by (simp add: py_range_mem)
    with a have "check_port_available bind (P + (r - P)) = Inr False" by blast
    then show "check_port_available bind r = Inr False" by simp
  qed
next
  assume h: "\<forall>r. P \<le> r \<and> r < P + n \<longrightarrow> check_port_available bind r = Inr False"
  have "\<forall>i\<in>set (py_range n). check_port_available bind (P + i) = Inr False"
    using h by (simp add: py_range_mem)
  then show "find_available_port bind P n = Inr None"
    unfolding find_available_port_def by (rule find_port_loop_none)
qed

lemma find_port_loop_raises:
  "n < length xs \<Longrightarrow> check_port_available bind (s + xs ! n) = Inl e \<Longrightarrow>
   (\<forall>m<n. check_port_available bind (s + xs ! m) = Inr False) \<Longrightarrow>
   find_port_loop bind s xs = Inl e"
proof (induction xs arbitrary: n)
  case Nil
  then show ?case by simp
next
  case (Cons x xs)
  show ?case
  proof (cases n)
    case 0
    with Cons.prems show ?thesis by simp
  next
    case (Suc k)
    from Cons.prems(3) Suc have hd: "check_port_available bind (s + x) = Inr False"
      by (metis nth_Cons_0 zero_less_Suc)
    have rest: "\<forall>m<k. check_port_available bind (s + xs ! m) = Inr False"
      using Cons.prems(3) Suc by (metis Suc_less_eq nth_Cons_Suc)
    have "find_port_loop bind s xs = Inl e"
      using Cons.IH [of k] Cons.prems(1,2) Suc rest by simp
    with hd show ?thesis by simp
  qed
qed

lemma find_port_loop_Inl:
  "find_port_loop bind s xs = Inl e \<Longrightarrow>
   \<exists>n<length xs. check_port_available bind (s + xs ! n) = Inl e \<and>
     (\<forall>m<n. check_port_available bind (s + xs ! m) = Inr False)"
proof (induction xs)
  case Nil
  then show ?case by simp
next
  case (Cons x xs)
  show ?case
  proof (cases "check_port_available bind (s + x)")
    case (Inl e')
    with Cons.prems have "e' = e" by simp
    with Inl show ?thesis by (intro exI [of _ 0]) simp
  next
    case (Inr b)
    show ?thesis
    proof (cases b)
      case True
      with Inr Cons.prems show ?thesis by simp
    next
      case False
      with Inr Cons.prems have "find_port_loop bind s xs = Inl e" by simp
      from Cons.IH [OF this] obtain n where n: "n < length xs"
        "check_port_available bind (s + xs ! n) = Inl e"
        "\<forall>m<n. check_port_available bind (s + xs ! m) = Inr False" by blast
      have "\<forall>m<Suc n. check_port_available bind (s + (x # xs) ! m) = Inr False"
      proof (intro allI impI)
        fix m assume "m < Suc n"
        then show "check_port_available bind (s + (x # xs) ! m) = Inr False"
          using n(3) Inr False by (cases m) simp_all
      qed
      with n(1,2) show ?thesis by (intro exI [of _ "Suc n"]) simp
    qed
  qed
qed

lemma find_available_port_Inl_iff:
  "find_available_port bind P n = Inl e \<longleftrightarrow>
     (\<exists>q. P \<le> q \<and> q < P + n \<and> check_port_available bind q = Inl e \<and>
        (\<forall>r. P \<le> r \<and> r < q \<longrightarrow> check_port_available bind r = Inr False))"
proof
  assume "find_available_port bind P n = Inl e"
  then obtain k where k: "k < nat n"
    "check_port_available bind (P + py_range n ! k) = Inl e"
    "\<forall>m<k. check_port_available bind (P + py_range n ! m) = Inr False"
    unfolding find_available_port_def using find_port_loop_Inl [of bind P "py_range n" e]
    by (auto simp: length_py_range)
  from k(1) have nth: "py_range n ! k = int k" by (simp add: py_range_nth)
  have "check_port_available bind r = Inr False" if r: "P \<le> r \<and> r < P + int k" for r
  proof -
    define j where "j = nat (r - P)"
    from r have j: "j < k" "r = P + int j" unfolding j_def by arith+
    from j(1) k(1) have "py_range n ! j = int j" by (intro py_range_nth) simp
    moreover from k(3) j(1) have "check_port_available bind (P + py_range n ! j) = Inr False"
      by blast
    ultimately show ?thesis using j(2) by simp
  qed
  with k(1,2) nth show "\<exists>q. P \<le> q \<and> q < P + n \<and> check_port_available bind q = Inl e \<and>
        (\<forall>r. P \<le> r \<and> r < q \<longrightarrow> check_port_available bind r = Inr False)"
    by (intro exI [of _ "P + int k"]) auto
next
  assume "\<exists>q. P \<le> q \<and> q < P + n \<and> check_port_available bind q = Inl e \<and>
        (\<forall>r. P \<le> r \<and> r < q \<longrightarrow> check_port_available bind r = Inr False)"
  then obtain q where h: "P \<le> q" "q < P + n" "check_port_available bind q = Inl e"
    "\<forall>r. P \<le> r \<and> r < q \<longrightarrow> check_port_available bind r = Inr False" by blast
  define k where "k = nat (q - P)"
  from h(1,2) have k: "k < nat n" "q = P + int k" by (simp_all add: k_def)
  then have nth: "py_range n ! k = int k" by (simp add: py_range_nth)
  have before: "\<forall>m<k. check_port_available bind (P + py_range n ! m) = Inr False"
  proof (intro allI impI)
    fix m assume "m < k"
    with k have "py_range n ! m = int m" "P \<le> P + int m \<and> P + int m < q"
      by (simp_all add: py_range_nth)
    with h(4) show "check_port_available bind (P + py_range n ! m) = Inr False" by simp
  qed
  have "find_port_loop bind P (py_range n) = Inl e"
    using find_port_loop_raises [of k "py_range n" bind P e] k(1) h(3) before nth k(2)
    by (simp add: length_py_range)
  then show "find_available_port bind P n = Inl e"
    by (simp add: find_available_port_def)
qed

text \<open>
  C4, as stated, fails for start ports above 65526: \<^verbatim>\<open>bind\<close> raises
  \<^verbatim>\<open>OverflowError\<close>, not \<^verbatim>\<open>OSError\<close>, for a port above 65535, and
  \<^verbatim>\<open>check_port_available\<close> catches \<^verbatim>\<open>OSError\<close> only. From 65530, with 65530..65535
  occupied, no port of the ten passes the probe and the call raises instead of returning
  \<^verbatim>\<open>None\<close>.
\<close>

theorem C4_port_above_65535_counterexample:
  "find_available_port
     (\<lambda>port. if 65535 < port then Some (Exn OverflowError ''bind(): port must be 0-65535.'')
        else Some (Exn OSError ''[Errno 98] Address already in use'')) 65530 10
   = Inl (Exn OverflowError ''bind(): port must be 0-65535.'')"
  unfolding find_available_port_Inl_iff
  by (intro exI [of _ 65536]) (simp add: check_port_available_def is_OSError_def)

text \<open>
  C4, amended. With the default of ten attempts, \<^verbatim>\<open>find_available_port(P)\<close> returns a
  port \<open>q\<close> exactly when \<open>q\<close> is in \<open>P..P+9\<close>, the probe succeeds on \<open>q\<close> and the
  probe reports every port from \<open>P\<close> up to \<open>q\<close> occupied; it returns \<^verbatim>\<open>None\<close> exactly
  when the probe reports all ten ports occupied; and it raises \<open>e\<close> exactly when the
  probe raises \<open>e\<close> (an exception other than \<^verbatim>\<open>OSError\<close>) on a port of the range
  after reporting every earlier one occupied. In particular, when all of \<open>P..P+9\<close> but
  \<open>P+7\<close> are reported occupied, the result is \<open>P+7\<close>.
\<close>

theorem C4_find_available_port:
  "(find_available_port bind P 10 = Inr (Some q) \<longleftrightarrow>
      P \<le> q \<and> q \<le> P + 9 \<and> check_port_available bind q = Inr True \<and>
      (\<forall>r. P \<le> r \<and> r < q \<longrightarrow> check_port_available bind r = Inr False))
   \<and> (find_available_port bind P 10 = Inr None \<longleftrightarrow>
      (\<forall>r. P \<le> r \<and> r \<le> P + 9 \<longrightarrow> check_port_available bind r = Inr False))
   \<and> (find_available_port bind P 10 = Inl e \<longleftrightarrow>
      (\<exists>q. P \<le> q \<and> q \<le> P + 9 \<and> check_port_available bind q = Inl e \<and>
         (\<forall>r. P \<le> r \<and> r < q \<longrightarrow> check_port_available bind r = Inr False)))
   \<and> (check_port_available bind (P + 7) = Inr True \<and>
      (\<forall>r. P \<le> r \<and> r \<le> P + 9 \<and> r \<noteq> P + 7 \<longrightarrow> check_port_available bind r = Inr False)
      \<longrightarrow> find_available_port bind P 10 = Inr (Some (P + 7)))"
proof (intro conjI impI)
  show "find_available_port bind P 10 = Inr (Some q) \<longleftrightarrow>
      P \<le> q \<and> q \<le> P + 9 \<and> check_port_available bind q = Inr True \<and>
      (\<forall>r. P \<le> r \<and> r < q \<longrightarrow> check_port_available bind r = Inr False)"
    using find_available_port_Some_iff [of bind P 10 q] by auto
  show "find_available_port bind P 10 = Inr None \<longleftrightarrow>
      (\<forall>r. P \<le> r \<and> r \<le> P + 9 \<longrightarrow> check_port_available bind r = Inr False)"
    using find_available_port_None_iff [of bind P 10] by auto
  have "(q < P + 10) = (q \<le> P + 9)" for q :: int by arith
  then show "find_available_port bind P 10 = Inl e \<longleftrightarrow>
      (\<exists>q. P \<le> q \<and> q \<le> P + 9 \<and> check_port_available bind q = Inl e \<and>
         (\<forall>r. P \<le> r \<and> r < q \<longrightarrow> check_port_available bind r = Inr False))"
    unfolding find_available_port_Inl_iff [of bind P 10 e] by simp
  assume "check_port_available bind (P + 7) = Inr True \<and>
      (\<forall>r. P \<le> r \<and> r \<le> P + 9 \<and> r \<noteq> P + 7 \<longrightarrow> check_port_available bind r = Inr False)"
  then show "find_available_port bind P 10 = Inr (Some (P + 7))"
    using find_available_port_Some_iff [of bind P 10 "P + 7"] by auto
qed

theorem C4_find_available_port_witness:
  "find_available_port
     (\<lambda>port. if port = 8087 then None
        else Some (Exn OSError ''[Errno 98] Address already in use'')) 8080 10 = Inr (Some 8087)
   \<and> find_available_port
        (\<lambda>port. Some (Exn OSError ''[Errno 98] Address already in use'')) 8080 10 = Inr None"
proof -
  let ?one = "\<lambda>port::int. if port = 8087 then None
        else Some (Exn OSError ''[Errno 98] Address already in use'')"
  let ?none = "\<lambda>port::int. Some (Exn OSError ''[Errno 98] Address already in use'')"
  have a: "check_port_available ?one (8080 + 7) = Inr True \<and>
      (\<forall>r. 8080 \<le> r \<and> r \<le> 8080 + 9 \<and> r \<noteq> 8080 + 7 \<longrightarrow>
         check_port_available ?one r = Inr False)"
    by (simp add: check_port_available_def is_OSError_def)
  have b: "\<forall>r. 8080 \<le> r \<and> r \<le> 8080 + 9 \<longrightarrow> check_port_available ?none r = Inr False"
    by (simp add: check_port_available_def is_OSError_def)
  show ?thesis
    using a b C4_find_available_port [of ?one 8080 8087 "Exn OSError []"]
      C4_find_available_port [of ?none 8080 0 "Exn OSError []"]
    by simp
qed

section \<open>Properties of the start-up flow\<close>

lemma kill_existing_server_False:
  "kill_existing_server run kill = Inr (False, sigs) \<Longrightarrow> sigs = []"
  by (auto simp: kill_existing_server_def split: run_result.splits if_splits option.splits)

lemma strip_two: "strip ''2'' = ''2''"
  by (simp add: strip_def is_space_def)

lemma scan_and_serve_port:
  assumes "scan_and_serve env sigs = Inr (Served p, xs)"
  shows "PORT + 1 \<le> p \<and> p \<le> PORT + 10"
proof -
  from assms obtain q where q: "find_available_port (probe env) (PORT + 1) 10 = Inr (Some q)"
    and s: "serve env q sigs = Inr (Served p, xs)"
    by (auto simp: scan_and_serve_def split: sum.splits if_splits)
  from s have "p = q" by (auto simp: serve_def split: option.splits if_splits)
  with q show ?thesis using find_available_port_Some_iff [of "probe env" "PORT + 1" 10 q] by simp
qed

lemma kill_existing_server_lookup_raises:
  "is_Exception e \<Longrightarrow> kill_existing_server (RunRaised e) kill = Inr (False, [])"
  by (simp add: kill_existing_server_def)

lemma kill_existing_server_no_output:
  "strip out = [] \<Longrightarrow> kill_existing_server (Completed out) kill = Inr (False, [])"
  by (simp add: kill_existing_server_def)

lemma kill_existing_server_unparsable:
  "py_int (strip out) = None \<Longrightarrow> kill_existing_server (Completed out) kill = Inr (False, [])"
  by (simp add: kill_existing_server_def)

lemma kill_existing_server_kill_raises:
  "py_int (strip out) = Some pid \<Longrightarrow> is_Exception e \<Longrightarrow>
   kill_existing_server (Completed out) (Some e) = Inr (False, [])"
  by (simp add: kill_existing_server_def)

lemma kill_existing_server_signalled:
  "strip out \<noteq> [] \<Longrightarrow> py_int (strip out) = Some pid \<Longrightarrow>
   kill_existing_server (Completed out) None = Inr (True, [pid])"
  by (simp add: kill_existing_server_def)

lemma server_main_after_failed_kill:
  assumes "check_port_available (probe env) PORT = Inr False"
    and "strip (choice_input env) = ''1''"
    and "kill_existing_server (lsof_run env) (kill_outcome env) = Inr (False, sigs)"
  shows "server_main env = scan_and_serve env []
    \<and> server_main env = server_main (env\<lparr>choice_input := ''2''\<rparr>)
    \<and> server_main env \<noteq> Inr (Served PORT, xs)
    \<and> server_main env \<noteq> Inr (Exited 0, xs)"
proof -
  from assms(3) have sigs: "sigs = []" by (rule kill_existing_server_False)
  have main: "server_main env = scan_and_serve env []"
    using assms sigs by (simp add: server_main_def after_choice_def)
  have two: "server_main (env\<lparr>choice_input := ''2''\<rparr>) = scan_and_serve env []"
    using assms(1)
    by (simp add: server_main_def after_choice_def strip_two scan_and_serve_def serve_def
        split: sum.splits)
  have "scan_and_serve env [] \<noteq> Inr (Served PORT, xs)"
    using scan_and_serve_port [of env "[]" PORT xs] by auto
  moreover have "scan_and_serve env [] \<noteq> Inr (Exited 0, xs)"
    by (auto simp: scan_and_serve_def serve_def split: sum.splits option.splits if_splits)
  ultimately show ?thesis using main two by simp
qed

text \<open>
  C5, amended. The port is occupied and the operator chooses 1. When the termination
  attempt fails, that is, the lookup raises, prints nothing or prints something that is
  not one integer, or the signal cannot be delivered, the script does exactly what choice
  2 does: it scans forward from the next port, and so neither serves on the occupied
  port nor takes the clean exit of choice 3. When the signal is delivered, the port is
  not probed again: the script goes on to bind the original port whatever the probe
  would say.
\<close>

theorem C5_failed_kill_falls_back_to_scan:
  assumes "check_port_available (probe env) PORT = Inr False"
    and "strip (choice_input env) = ''1''"
  shows "(lsof_run env = RunRaised e \<and> is_Exception e
          \<or> lsof_run env = Completed out \<and>
             (strip out = [] \<or> py_int (strip out) = None
              \<or> py_int (strip out) = Some pid \<and> kill_outcome env = Some e \<and> is_Exception e)
        \<longrightarrow> server_main env = scan_and_serve env []
          \<and> server_main env = server_main (env\<lparr>choice_input := ''2''\<rparr>)
          \<and> server_main env \<noteq> Inr (Served PORT, xs)
          \<and> server_main env \<noteq> Inr (Exited 0, xs))
    \<and> (lsof_run env = Completed out \<and> strip out \<noteq> [] \<and> py_int (strip out) = Some pid
          \<and> kill_outcome env = None
        \<longrightarrow> server_main env = serve env PORT [pid])"
proof (rule conjI; rule impI)
  assume "lsof_run env = RunRaised e \<and> is_Exception e
          \<or> lsof_run env = Completed out \<and>
             (strip out = [] \<or> py_int (strip out) = None
              \<or> py_int (strip out) = Some pid \<and> kill_outcome env = Some e \<and> is_Exception e)"
  then have "kill_existing_server (lsof_run env) (kill_outcome env) = Inr (False, [])"
    using kill_existing_server_lookup_raises [of e "kill_outcome env"]
      kill_existing_server_no_output [of out "kill_outcome env"]
      kill_existing_server_unparsable [of out "kill_outcome env"]
      kill_existing_server_kill_raises [of out pid e]
    by auto
  from server_main_after_failed_kill [OF assms this]
  show "server_main env = scan_and_serve env []
          \<and> server_main env = server_main (env\<lparr>choice_input := ''2''\<rparr>)
          \<and> server_main env \<noteq> Inr (Served PORT, xs)
          \<and> server_main env \<noteq> Inr (Exited 0, xs)" .
next
  assume a: "lsof_run env = Completed out \<and> strip out \<noteq> [] \<and> py_int (strip out) = Some pid
          \<and> kill_outcome env = None"
  then have "kill_existing_server (lsof_run env) (kill_outcome env) = Inr (True, [pid])"
    using kill_existing_server_signalled [of out pid] by simp
  then show "server_main env = serve env PORT [pid]"
    using assms by (simp add: server_main_def after_choice_def)
qed

theorem C5_failed_kill_falls_back_to_scan_witness:
  "check_port_available
     (probe \<lparr>probe = \<lambda>port. if port = 8081 then None
                       else Some (Exn OSError ''[Errno 98] Address already in use''),
             choice_input = ''1 '', lsof_run = Completed [], kill_outcome = None,
             server_bind = \<lambda>port. None\<rparr>) PORT = Inr False
   \<and> server_main
       \<lparr>probe = \<lambda>port. if port = 8081 then None
                  else Some (Exn OSError ''[Errno 98] Address already in use''),
        choice_input = ''1 '', lsof_run = Completed [], kill_outcome = None,
        server_bind = \<lambda>port. None\<rparr> = Inr (Served 8081, [])
   \<and> server_main
       \<lparr>probe = \<lambda>port. if port = 8081 then None
                  else Some (Exn OSError ''[Errno 98] Address already in use''),
        choice_input = ''1 '', lsof_run = Completed ''4242\<newline>'', kill_outcome = None,
        server_bind = \<lambda>port. None\<rparr> = Inr (Served 8080, [4242])"
proof -
  let ?env = "\<lparr>probe = \<lambda>port::int. if port = 8081 then None
                  else Some (Exn OSError ''[Errno 98] Address already in use''),
      choice_input = ''1 '', lsof_run = Completed [], kill_outcome = None,
      server_bind = \<lambda>port::int. None :: exn option\<rparr>"
  let ?env' = "\<lparr>probe = \<lambda>port::int. if port = 8081 then None
                  else Some (Exn OSError ''[Errno 98] Address already in use''),
      choice_input = ''1 '', lsof_run = Completed ''4242\<newline>'', kill_outcome = None,
      server_bind = \<lambda>port::int. None :: exn option\<rparr>"
  have a: "check_port_available (probe ?env) PORT = Inr False"
    by (simp add: check_port_available_def PORT_def is_OSError_def)
  have a': "check_port_available (probe ?env') PORT = Inr False"
    by (simp add: check_port_available_def PORT_def is_OSError_def)
  have b: "strip (choice_input ?env) = ''1''" "strip (choice_input ?env') = ''1''"
    by (simp_all add: strip_def is_space_def)
  have c: "lsof_run ?env = Completed [] \<and> strip [] = []"
    by (simp add: strip_def)
  have c': "lsof_run ?env' = Completed ''4242\<newline>'' \<and> strip ''4242\<newline>'' \<noteq> []
      \<and> py_int (strip ''4242\<newline>'') = Some 4242 \<and> kill_outcome ?env' = None"
    by (simp add: py_int_def strip_def is_space_def Let_def
        max_str_digits_def is_digit_def int_unsigned_def digit_val_def)
  have "find_available_port (probe ?env) (PORT + 1) 10 = Inr (Some 8081)"
    unfolding find_available_port_Some_iff
    by (simp add: PORT_def check_port_available_def)
  then have d: "scan_and_serve ?env [] = Inr (Served 8081, [])"
    by (simp add: scan_and_serve_def serve_def)
  have d': "serve ?env' PORT [4242] = Inr (Served 8080, [4242])"
    by (simp add: serve_def PORT_def)
  have m: "server_main ?env = scan_and_serve ?env []"
    using C5_failed_kill_falls_back_to_scan [OF a b(1), of "Exn OSError []" "[]" 0 "[]"] c
    by blast
  have m': "server_main ?env' = serve ?env' PORT [4242]"
    using C5_failed_kill_falls_back_to_scan [OF a' b(2), of "Exn OSError []" "''4242\<newline>''" 4242 "[]"] c'
    by blast
  from a m m' d d' show ?thesis by simp
qed

text \<open>
  C5, as stated, fails when the signal is delivered but the port stays occupied:
  \<^verbatim>\<open>kill_existing_server\<close> returns \<^verbatim>\<open>True\<close>, the port is not probed again, the bind of
  the listening socket fails and the script exits with status 1, although the scan of
  choice 2 would have found port 8081.
\<close>

theorem C5_port_not_freed_counterexample:
  "server_main
     \<lparr>probe = \<lambda>port. if port = 8081 then None
                else Some (Exn OSError ''[Errno 98] Address already in use''),
      choice_input = ''1'', lsof_run = Completed ''1234\<newline>'', kill_outcome = None,
      server_bind = \<lambda>port. if port = 8080
                then Some (Exn OSError ''[Errno 98] Address already in use'') else None\<rparr>
     = Inr (Exited 1, [1234])
   \<and> scan_and_serve
     \<lparr>probe = \<lambda>port. if port = 8081 then None
                else Some (Exn OSError ''[Errno 98] Address already in use''),
      choice_input = ''1'', lsof_run = Completed ''1234\<newline>'', kill_outcome = None,
      server_bind = \<lambda>port. if port = 8080
                then Some (Exn OSError ''[Errno 98] Address already in use'') else None\<rparr> [1234]
     = Inr (Served 8081, [1234])"
proof -
  let ?env = "\<lparr>probe = \<lambda>port::int. if port = 8081 then None
                else Some (Exn OSError ''[Errno 98] Address already in use''),
      choice_input = ''1'', lsof_run = Completed ''1234\<newline>'', kill_outcome = None,
      server_bind = \<lambda>port::int. if port = 8080
                then Some (Exn OSError ''[Errno 98] Address already in use'') else None\<rparr>"
  have k: "kill_existing_server (lsof_run ?env) (kill_outcome ?env) = Inr (True, [1234])"
    by (simp add: kill_existing_server_def py_int_def strip_def is_space_def Let_def
        max_str_digits_def is_digit_def int_unsigned_def digit_val_def)
  have m: "server_main ?env = Inr (Exited 1, [1234])"
    using k
    by (simp add: server_main_def check_port_available_def PORT_def is_OSError_def
        after_choice_def serve_def is_Exception_def strip_def is_space_def)
  have "find_available_port (probe ?env) (PORT + 1) 10 = Inr (Some 8081)"
    unfolding find_available_port_Some_iff
    by (simp add: PORT_def check_port_available_def)
  then have "scan_and_serve ?env [1234] = Inr (Served 8081, [1234])"
    by (simp add: scan_and_serve_def serve_def)
  with m show ?thesis by simp
qed

section \<open>Properties of process discovery\<close>

lemma get_server_pid_never_raises:
  "is_Exception e \<Longrightarrow> get_server_pid (RunRaised e) = Inr None"
  "\<exists>r. get_server_pid (Completed out) = Inr r"
  by (simp_all add: get_server_pid_def split: option.splits)

text \<open>
  C6 does not hold of the code: the whole stripped output is given to \<^verbatim>\<open>int\<close>, not
  its first identifier. When the lookup prints two identifiers, one per line, the first
  is 1234; \<^verbatim>\<open>int\<close> fails on the two lines, the \<^verbatim>\<open>ValueError\<close> is swallowed and
  discovery reports no process although processes own the port. The server then counts
  as not running, and \<^verbatim>\<open>start_server\<close> launches a second one.
\<close>

theorem C6_first_identifier_not_parsed:
  "spec_first_identifier ''1234\<newline>5678\<newline>'' = Some 1234
   \<and> get_server_pid (Completed ''1234\<newline>5678\<newline>'') = Inr None
   \<and> is_server_running
        \<lparr>lsof = Completed ''1234\<newline>5678\<newline>'', launched = [], sigterms = [], printed = []\<rparr>
       = Inr False
   \<and> launched (snd (start_server
        \<lparr>executable = ''python3'', popen_outcome = None,
         lsof_after_launch = Completed ''1234\<newline>5678\<newline>'', kill_result = None,
         lsof_after_kill = Completed []\<rparr>
        \<lparr>lsof = Completed ''1234\<newline>5678\<newline>'', launched = [], sigterms = [], printed = []\<rparr>))
       = [[''python3'', ''server.py'']]"
proof -
  have pid: "get_server_pid (Completed ''1234\<newline>5678\<newline>'') = Inr None"
    by (simp add: get_server_pid_def py_int_def strip_def is_space_def
        Let_def max_str_digits_def is_digit_def int_unsigned_def digit_val_def)
  have first: "spec_first_identifier ''1234\<newline>5678\<newline>'' = Some 1234"
    by (simp add: spec_first_identifier_def py_int_def strip_def is_space_def
        Let_def max_str_digits_def is_digit_def int_unsigned_def digit_val_def)
  have run: "is_server_running
        \<lparr>lsof = Completed ''1234\<newline>5678\<newline>'', launched = [], sigterms = [], printed = []\<rparr>
       = Inr False"
    by (simp add: is_server_running_def pid)
  have "launched (snd (start_server
        \<lparr>executable = ''python3'', popen_outcome = None,
         lsof_after_launch = Completed ''1234\<newline>5678\<newline>'', kill_result = None,
         lsof_after_kill = Completed []\<rparr>
        \<lparr>lsof = Completed ''1234\<newline>5678\<newline>'', launched = [], sigterms = [], printed = []\<rparr>))
       = [[''python3'', ''server.py'']]"
    by (simp add: start_server_def run is_server_running_def pid print_def Let_def
        SERVER_SCRIPT_def)
  with first pid run show ?thesis by simp
qed

section \<open>Properties of the server manager\<close>

lemma str_int_PORT: "str_int PORT = ''8080''"
  by (simp add: str_int_def PORT_def str_nat.simps char_of_eq_iff)

text \<open>
  C7. When discovery finds a process on the port, \<^verbatim>\<open>start_server\<close> returns
  \<^verbatim>\<open>False\<close> and only prints the already-running message and the hint to use
  restart: no child is launched, no signal is sent, and discovery afterwards finds the
  same process identifier.
\<close>

theorem C7_start_refuses_when_running:
  assumes "get_server_pid (lsof w) = Inr (Some pid)"
  shows "start_server env w =
      (Inr False,
       w\<lparr>printed := printed w @
          [cross_mark @ '' Server is already running on port 8080'',
           ''Use './manage_server.py restart' to restart it'']\<rparr>)
    \<and> launched (snd (start_server env w)) = launched w
    \<and> sigterms (snd (start_server env w)) = sigterms w
    \<and> get_server_pid (lsof (snd (start_server env w))) = Inr (Some pid)"
  using assms by (simp add: start_server_def is_server_running_def print_def str_int_PORT)

theorem C7_start_refuses_when_running_witness:
  "get_server_pid (lsof \<lparr>lsof = Completed ''4242\<newline>'', launched = [], sigterms = [], printed = []\<rparr>)
     = Inr (Some 4242)
   \<and> start_server
       \<lparr>executable = ''/usr/bin/python3'', popen_outcome = None,
        lsof_after_launch = Completed ''4242\<newline>'', kill_result = None,
        lsof_after_kill = Completed []\<rparr>
       \<lparr>lsof = Completed ''4242\<newline>'', launched = [], sigterms = [], printed = []\<rparr>
     = (Inr False,
        \<lparr>lsof = Completed ''4242\<newline>'', launched = [], sigterms = [],
         printed = [cross_mark @ '' Server is already running on port 8080'',
                    ''Use './manage_server.py restart' to restart it'']\<rparr>)"
proof -
  have a: "get_server_pid (lsof \<lparr>lsof = Completed ''4242\<newline>'', launched = [], sigterms = [], printed = []\<rparr>)
     = Inr (Some 4242)"
    by (simp add: get_server_pid_def py_int_def strip_def is_space_def Let_def
        max_str_digits_def is_digit_def int_unsigned_def digit_val_def)
  from C7_start_refuses_when_running [OF a, of
      "\<lparr>executable = ''/usr/bin/python3'', popen_outcome = None,
        lsof_after_launch = Completed ''4242\<newline>'', kill_result = None,
        lsof_after_kill = Completed []\<rparr>"] a
  show ?thesis by simp
qed

text \<open>
  C8. When discovery finds no process on the port, \<^verbatim>\<open>stop_server\<close> returns
  \<^verbatim>\<open>False\<close> and only prints the not-running message: no signal is sent, nothing is
  launched, the port lookup answers as before, and a following \<^verbatim>\<open>status_server\<close>
  reports that the server is not running.
\<close>

theorem C8_stop_when_not_running:
  assumes "get_server_pid (lsof w) = Inr None"
  shows "stop_server env w =
      (Inr False, w\<lparr>printed := printed w @ [cross_mark @ '' No server is running'']\<rparr>)
    \<and> sigterms (snd (stop_server env w)) = sigterms w
    \<and> launched (snd (stop_server env w)) = launched w
    \<and> lsof (snd (stop_server env w)) = lsof w
    \<and> status_server (snd (stop_server env w)) =
        (Inr (),
         w\<lparr>printed := printed w @
            [cross_mark @ '' No server is running'', cross_mark @ '' Server is not running'']\<rparr>)"
  using assms by (simp add: stop_server_def status_server_def print_def)

theorem C8_stop_when_not_running_witness:
  "get_server_pid (lsof \<lparr>lsof = Completed [], launched = [], sigterms = [], printed = []\<rparr>) = Inr None
   \<and> stop_server
       \<lparr>executable = ''/usr/bin/python3'', popen_outcome = None,
        lsof_after_launch = Completed ''4242\<newline>'', kill_result = None,
        lsof_after_kill = Completed []\<rparr>
       \<lparr>lsof = Completed [], launched = [], sigterms = [], printed = []\<rparr>
     = (Inr False,
        \<lparr>lsof = Completed [], launched = [], sigterms = [],
         printed = [cross_mark @ '' No server is running'']\<rparr>)"
proof -
  have a: "get_server_pid (lsof \<lparr>lsof = Completed [], launched = [], sigterms = [], printed = []\<rparr>) = Inr None"
    by (simp add: get_server_pid_def strip_def)
  from C8_stop_when_not_running [OF a, of
      "\<lparr>executable = ''/usr/bin/python3'', popen_outcome = None,
        lsof_after_launch = Completed ''4242\<newline>'', kill_result = None,
        lsof_after_kill = Completed []\<rparr>"] a
  show ?thesis by simp
qed

section \<open>Properties of the favicon generator\<close>

lemma placeholder_length:
  "length (placeholder_header @ replicate 1000 (CHR 0x00)) = 1014"
  by (simp add: placeholder_header_def)

lemma main_block_fallback:
  assumes "pil_import env = None" and "rendering env = Inl e" and "is_ImportError e"
  shows "main_block env st = (None, write_placeholder st)"
    and "files (write_placeholder st) ''favicon.ico''
           = Some (placeholder_header @ replicate 1000 (CHR 0x00))"
  using assms by (simp_all add: main_block_def write_placeholder_def)

lemma import_failure_propagates:
  "pil_import env = Some e \<Longrightarrow> create_favicon_script env st = (Some e, st)"
  by (simp add: create_favicon_script_def)

text \<open>
  C9 does not hold of the script as a whole. The handler under
  \<^verbatim>\<open>except ImportError\<close> does write the 1014-byte placeholder when it is reached
  (\<open>main_block_fallback\<close>, \<open>placeholder_length\<close>), but the same import stands
  unguarded on line 6 of the module, before the \<^verbatim>\<open>try\<close>. Without the library the
  script ends there with the exception uncaught: nothing is written and nothing printed.
\<close>

theorem C9_import_failure_propagates:
  "is_ImportError (Exn ModuleNotFoundError ''No module named PIL'')
   \<and> create_favicon_script
       \<lparr>pil_import = Some (Exn ModuleNotFoundError ''No module named PIL''),
        rendering = Inl (Exn ModuleNotFoundError ''No module named PIL'')\<rparr>
       \<lparr>files = Map.empty, console = []\<rparr>
     = (Some (Exn ModuleNotFoundError ''No module named PIL''),
        \<lparr>files = Map.empty, console = []\<rparr>)"
  by (simp add: create_favicon_script_def is_ImportError_def)


section \<open>Properties of the command dispatch\<close>

lemma of_char_lower_char:
  "(of_char (lower_char c) :: nat) =
     (if (65 \<le> (of_char c :: nat) \<and> (of_char c :: nat) \<le> 90) \<or>
         (192 \<le> (of_char c :: nat) \<and> (of_char c :: nat) \<le> 222 \<and> (of_char c :: nat) \<noteq> 215)
      then of_char c + 32 else of_char c)"
  by (auto simp: lower_char_def Let_def)

lemma lower_char_idem: "lower_char (lower_char c) = lower_char c"
proof -
  have "\<not> ((65 \<le> (of_char (lower_char c) :: nat) \<and> (of_char (lower_char c) :: nat) \<le> 90) \<or>
         (192 \<le> (of_char (lower_char c) :: nat) \<and> (of_char (lower_char c) :: nat) \<le> 222
            \<and> (of_char (lower_char c) :: nat) \<noteq> 215))"
    unfolding of_char_lower_char by auto
  then show ?thesis by (auto simp: lower_char_def [of "lower_char c"] Let_def)
qed

lemma lower_lower: "lower (lower s) = lower s"
  by (simp add: lower_def lower_char_idem)

lemma fst_finish: "fst (finish rw) \<noteq> Inr 1"
  by (simp add: finish_def split: sum.splits)

text \<open>
  C10. \<^verbatim>\<open>main\<close> does on an argument what it does on its lowercased form. An
  argument whose lowercased form is \<^verbatim>\<open>start\<close>, \<^verbatim>\<open>stop\<close>, \<^verbatim>\<open>restart\<close> or
  \<^verbatim>\<open>status\<close> runs that action and never takes the exit with status 1; every other
  argument prints the unknown-command message and exits with status 1.
\<close>

theorem C10_case_insensitive_dispatch:
  "main env [prog, s] w = main env [prog, lower s] w
   \<and> (lower s = ''start'' \<longrightarrow> main env [prog, s] w = finish (start_server env w))
   \<and> (lower s = ''stop'' \<longrightarrow> main env [prog, s] w = finish (stop_server env w))
   \<and> (lower s = ''restart'' \<longrightarrow> main env [prog, s] w = finish (restart_server env w))
   \<and> (lower s = ''status'' \<longrightarrow> main env [prog, s] w = finish (status_server w))
   \<and> (lower s \<in> {''start'', ''stop'', ''restart'', ''status''} \<longrightarrow>
        fst (main env [prog, s] w) \<noteq> Inr 1)
   \<and> (lower s \<notin> {''start'', ''stop'', ''restart'', ''status''} \<longrightarrow>
        main env [prog, s] w =
          (Inr 1,
           w\<lparr>printed := printed w @
              [''Unknown command: '' @ lower s,
               ''Available commands: start, stop, restart, status'']\<rparr>))"
proof (intro conjI impI)
  show "main env [prog, s] w = main env [prog, lower s] w"
    by (simp add: main_def lower_lower)
  show "main env [prog, s] w = finish (start_server env w)" if "lower s = ''start''"
    using that by (simp add: main_def)
  show "main env [prog, s] w = finish (stop_server env w)" if "lower s = ''stop''"
    using that by (simp add: main_def)
  show "main env [prog, s] w = finish (restart_server env w)" if "lower s = ''restart''"
    using that by (simp add: main_def)
  show "main env [prog, s] w = finish (status_server w)" if "lower s = ''status''"
    using that by (simp add: main_def)
  show "fst (main env [prog, s] w) \<noteq> Inr 1"
    if "lower s \<in> {''start'', ''stop'', ''restart'', ''status''}"
    using that by (auto simp: main_def fst_finish)
  show "main env [prog, s] w =
          (Inr 1,
           w\<lparr>printed := printed w @
              [''Unknown command: '' @ lower s,
               ''Available commands: start, stop, restart, status'']\<rparr>)"
    if "lower s \<notin> {''start'', ''stop'', ''restart'', ''status''}"
    using that by (simp add: main_def print_def)
qed

theorem C10_case_insensitive_dispatch_witness:
  "lower ''START'' = ''start'' \<and> lower ''Stop'' = ''stop'' \<and> lower ''ReStArT'' = ''restart''
   \<and> main \<lparr>executable = ''python3'', popen_outcome = None, lsof_after_launch = Completed [],
            kill_result = None, lsof_after_kill = Completed []\<rparr>
        [''manage_server.py'', ''START'']
        \<lparr>lsof = Completed [], launched = [], sigterms = [], printed = []\<rparr>
      = finish (start_server
          \<lparr>executable = ''python3'', popen_outcome = None, lsof_after_launch = Completed [],
           kill_result = None, lsof_after_kill = Completed []\<rparr>
          \<lparr>lsof = Completed [], launched = [], sigterms = [], printed = []\<rparr>)
   \<and> main \<lparr>executable = ''python3'', popen_outcome = None, lsof_after_launch = Completed [],
            kill_result = None, lsof_after_kill = Completed []\<rparr>
        [''manage_server.py'', ''Stop'']
        \<lparr>lsof = Completed [], launched = [], sigterms = [], printed = []\<rparr>
      = finish (stop_server
          \<lparr>executable = ''python3'', popen_outcome = None, lsof_after_launch = Completed [],
           kill_result = None, lsof_after_kill = Completed []\<rparr>
          \<lparr>lsof = Completed [], launched = [], sigterms = [], printed = []\<rparr>)
   \<and> main \<lparr>executable = ''python3'', popen_outcome = None, lsof_after_launch = Completed [],
            kill_result = None, lsof_after_kill = Completed []\<rparr>
        [''manage_server.py'', ''ReStArT'']
        \<lparr>lsof = Completed [], launched = [], sigterms = [], printed = []\<rparr>
      = finish (restart_server
          \<lparr>executable = ''python3'', popen_outcome = None, lsof_after_launch = Completed [],
           kill_result = None, lsof_after_kill = Completed []\<rparr>
          \<lparr>lsof = Completed [], launched = [], sigterms = [], printed = []\<rparr>)
   \<and> lower ''deploy'' \<notin> {''start'', ''stop'', ''restart'', ''status''}
   \<and> fst (main \<lparr>executable = ''python3'', popen_outcome = None, lsof_after_launch = Completed [],
            kill_result = None, lsof_after_kill = Completed []\<rparr>
        [''manage_server.py'', ''deploy'']
        \<lparr>lsof = Completed [], launched = [], sigterms = [], printed = []\<rparr>) = Inr 1"
proof -
  let ?env = "\<lparr>executable = ''python3'', popen_outcome = None, lsof_after_launch = Completed [],
            kill_result = None, lsof_after_kill = Completed []\<rparr>"
  let ?w = "\<lparr>lsof = Completed [], launched = [], sigterms = [], printed = []\<rparr>"
  have l1: "lower ''START'' = ''start''"
    by (simp add: lower_def lower_char_def char_of_eq_iff)
  have l2: "lower ''Stop'' = ''stop''"
    by (simp add: lower_def lower_char_def char_of_eq_iff)
  have l3: "lower ''ReStArT'' = ''restart''"
    by (simp add: lower_def lower_char_def char_of_eq_iff)
  have l4: "lower ''deploy'' = ''deploy''"
    by (simp add: lower_def lower_char_def char_of_eq_iff)
  have n: "lower ''deploy'' \<notin> {''start'', ''stop'', ''restart'', ''status''}"
    unfolding l4 by simp
  note t1 = C10_case_insensitive_dispatch [of ?env "''manage_server.py''" "''START''" ?w]
  note t2 = C10_case_insensitive_dispatch [of ?env "''manage_server.py''" "''Stop''" ?w]
  note t3 = C10_case_insensitive_dispatch [of ?env "''manage_server.py''" "''ReStArT''" ?w]
  note t4 = C10_case_insensitive_dispatch [of ?env "''manage_server.py''" "''deploy''" ?w]
  have a: "main ?env [''manage_server.py'', ''START''] ?w = finish (start_server ?env ?w)"
    using t1 [THEN conjunct2, THEN conjunct1] l1 by (rule mp)
  have b: "main ?env [''manage_server.py'', ''Stop''] ?w = finish (stop_server ?env ?w)"
    using t2 [THEN conjunct2, THEN conjunct2, THEN conjunct1] l2 by (rule mp)
  have c: "main ?env [''manage_server.py'', ''ReStArT''] ?w = finish (restart_server ?env ?w)"
    using t3 [THEN conjunct2, THEN conjunct2, THEN conjunct2, THEN conjunct1] l3 by (rule mp)
  have "main ?env [''manage_server.py'', ''deploy''] ?w =
          (Inr 1,
           ?w\<lparr>printed := printed ?w @
              [''Unknown command: '' @ lower ''deploy'',
               ''Available commands: start, stop, restart, status'']\<rparr>)"
    using t4 [THEN conjunct2, THEN conjunct2, THEN conjunct2, THEN conjunct2, THEN conjunct2,
        THEN conjunct2] n by (rule mp)
  then have d: "fst (main ?env [''manage_server.py'', ''deploy''] ?w) = Inr 1"
    by (simp only: fst_conv)
  from l1 l2 l3 a b c n d show ?thesis by (intro conjI)
qed

end
